theory Spec2Isabelle
  imports Main "HOL-Library.AList" "HOL-Library.Sublist"
begin

section \<open>Text\<close>

text \<open>
  A Python \<open>str\<close> is a sequence of code points. The model takes \<^typ>\<open>string\<close>, whose
  characters are the 256 code points of Latin-1; \<open>bytes\<close> are lists of the same 8-bit
  characters. Every statement below about a text is a statement about texts over this
  alphabet.
\<close>

type_synonym bytes = string

definition dquote :: char where
  "dquote = CHR 0x22"

definition backtick :: char where
  "backtick = CHR 0x60"

definition lbrace :: char where
  "lbrace = CHR 0x7B"

definition rbrace :: char where
  "rbrace = CHR 0x7D"

text \<open>\<open>str.isspace\<close> on one code point; the same set is the class \<open>\s\<close> of \<open>re\<close>
  on a \<open>str\<close> pattern and what \<open>str.strip()\<close> removes.\<close>

definition is_space :: "char \<Rightarrow> bool" where
  "is_space c =
     (let n = (of_char c :: nat)
      in (9 \<le> n \<and> n \<le> 13) \<or> (28 \<le> n \<and> n \<le> 32) \<or> n = 133 \<or> n = 160)"

definition strip :: "string \<Rightarrow> string" where
  "strip s = rev (dropWhile is_space (rev (dropWhile is_space s)))"

text \<open>\<open>str.lower\<close>: the ASCII capitals and the Latin-1 capitals (all of 0xC0..0xDE but
  the multiplication sign 0xD7) move up by 32.\<close>

definition lower_char :: "char \<Rightarrow> char" where
  "lower_char c =
     (let n = (of_char c :: nat)
      in if (65 \<le> n \<and> n \<le> 90) \<or> (192 \<le> n \<and> n \<le> 222 \<and> n \<noteq> 215)
         then char_of (n + 32) else c)"

definition lower :: "string \<Rightarrow> string" where
  "lower s = map lower_char s"

definition endswith :: "string \<Rightarrow> string \<Rightarrow> bool" where
  "endswith s suf =
     (length suf \<le> length s \<and> drop (length s - length suf) s = suf)"

section \<open>Decoded JSON\<close>

text \<open>
  What \<open>json.loads\<close> returns: \<open>None\<close>, a \<open>bool\<close>, an \<open>int\<close>, a \<open>float\<close>, a
  \<open>str\<close>, a \<open>list\<close> or a \<open>dict\<close>. A dict is an association list in insertion order,
  read with \<^const>\<open>map_of\<close> and written with \<^const>\<open>AList.update\<close> (a key that is
  already there keeps its place and takes the new value, as in Python).
  \<open>JFloat m e\<close> is the float that Python makes of the decimal \<open>m * 10 ^ e\<close>, that is the
  double nearest to it; \<open>JInfinity\<close> and \<open>JNaN\<close> are the non-finite floats that
  \<open>json.loads\<close> accepts as \<open>Infinity\<close>, \<open>-Infinity\<close> and \<open>NaN\<close>.
\<close>

datatype json =
    JNull
  | JBool bool
  | JInt int
  | JFloat int int
  | JInfinity bool
  | JNaN
  | JString string
  | JArray "json list"
  | JObject "(string \<times> json) list"

type_synonym dict = "(string \<times> json) list"

section \<open>The verdict and the response model\<close>

text \<open>\<open>class AnalysisResponse(BaseModel)\<close>: six fields of type \<open>bool\<close>.\<close>

record AnalysisResponse =
  excessive_loan :: bool
  rights_restriction :: bool
  trust_property :: bool
  residential_use :: bool
  tax_delinquency :: bool
  owner_verification :: bool

definition required_keys :: "string list" where
  "required_keys =
     [''excessive_loan'', ''rights_restriction'', ''trust_property'',
      ''residential_use'', ''tax_delinquency'', ''owner_verification'']"

text \<open>\<open>get_default_analysis_result\<close>: the dict returned on a timeout or an error.\<close>

definition get_default_analysis_result :: dict where
  "get_default_analysis_result =
     [(''excessive_loan'', JBool False),
      (''rights_restriction'', JBool False),
      (''trust_property'', JBool False),
      (''residential_use'', JBool True),
      (''tax_delinquency'', JBool False),
      (''owner_verification'', JBool True)]"

subsection \<open>Validation of the decoded answer\<close>

text \<open>
  Lines 412 to 424 of \<open>parse_openai_response\<close>. The loop over \<open>required_keys\<close>
  rewrites a value only under the guard \<open>isinstance(result[key], str)\<close>; every other
  value stays as it is.
\<close>

definition truthy_tokens :: "string list" where
  "truthy_tokens = [''true'', ''1'', ''yes'']"

fun normalize_keys :: "string list \<Rightarrow> dict \<Rightarrow> dict" where
  "normalize_keys [] d = d"
| "normalize_keys (k # ks) d =
     normalize_keys ks
       (case map_of d k of
          Some (JString s) \<Rightarrow> AList.update k (JBool (List.member truthy_tokens (lower s))) d
        | _ \<Rightarrow> d)"

text \<open>
  \<open>all(key in result for key in required_keys)\<close> is a key test on a dict. On a list or
  a str it is a membership or substring test, and when it holds the subscript
  \<open>result[key]\<close> raises \<open>TypeError\<close>; on \<open>None\<close>, a bool or a number the test itself
  raises. The \<open>except Exception\<close> of the function turns each of these into \<open>None\<close>, so
  only a dict is ever returned.
\<close>

definition validate_result :: "json \<Rightarrow> dict option" where
  "validate_result result =
     (case result of
        JObject d \<Rightarrow>
          if list_all (\<lambda>key. map_of d key \<noteq> None) required_keys
          then Some (normalize_keys required_keys d)
          else None
      | _ \<Rightarrow> None)"

subsection \<open>Building the response model\<close>

text \<open>
  \<open>AnalysisResponse(**analysis_result)\<close> validates each field as a \<open>bool\<close> in pydantic's
  default (lax) mode: a bool is taken as it is; the integers and floats equal to 0 and 1
  and the strings below, lowercased, are converted; anything else is a
  \<open>ValidationError\<close>. Keys other than the six fields are ignored.

  A decimal \<open>m * 10 ^ e\<close> rounds (to nearest, ties to even) to the double 1.0 exactly when
  it lies between \<open>1 - 2 ^ -54\<close> and \<open>1 + 2 ^ -53\<close>, and to 0.0 exactly when its
  magnitude is at most \<open>2 ^ -1075\<close>.
\<close>

definition float_is_zero :: "int \<Rightarrow> int \<Rightarrow> bool" where
  "float_is_zero m e =
     (m = 0 \<or> (e < 0 \<and> \<bar>m\<bar> * 2 ^ 1075 \<le> 10 ^ nat (- e)))"

definition float_is_one :: "int \<Rightarrow> int \<Rightarrow> bool" where
  "float_is_one m e =
     (if 0 \<le> e then m * 10 ^ nat e = 1
      else (2 ^ 54 - 1) * 10 ^ nat (- e) \<le> m * 2 ^ 54
           \<and> m * 2 ^ 53 \<le> (2 ^ 53 + 1) * 10 ^ nat (- e))"

definition bool_true_strs :: "string list" where
  "bool_true_strs = [''1'', ''on'', ''t'', ''true'', ''y'', ''yes'']"

definition bool_false_strs :: "string list" where
  "bool_false_strs = [''0'', ''off'', ''f'', ''false'', ''n'', ''no'']"

fun bool_validator :: "json \<Rightarrow> bool option" where
  "bool_validator (JBool b) = Some b"
| "bool_validator (JInt i) =
     (if i = 1 then Some True else if i = 0 then Some False else None)"
| "bool_validator (JFloat m e) =
     (if float_is_one m e then Some True
      else if float_is_zero m e then Some False else None)"
| "bool_validator (JString s) =
     (if List.member bool_true_strs (lower s) then Some True
      else if List.member bool_false_strs (lower s) then Some False else None)"
| "bool_validator _ = None"

text \<open>A field that the dict lacks is a \<open>ValidationError\<close> as well (all six are required).\<close>

definition field :: "dict \<Rightarrow> string \<Rightarrow> bool option" where
  "field d k = (case map_of d k of None \<Rightarrow> None | Some v \<Rightarrow> bool_validator v)"

definition make_AnalysisResponse :: "dict \<Rightarrow> AnalysisResponse option" where
  "make_AnalysisResponse d =
     (case (field d ''excessive_loan'', field d ''rights_restriction'',
            field d ''trust_property'', field d ''residential_use'',
            field d ''tax_delinquency'', field d ''owner_verification'') of
        (Some a, Some b, Some c, Some e, Some f, Some g) \<Rightarrow>
          Some \<lparr>excessive_loan = a, rights_restriction = b, trust_property = c,
                residential_use = e, tax_delinquency = f, owner_verification = g\<rparr>
      | _ \<Rightarrow> None)"

section \<open>Regular expressions\<close>

text \<open>
  The two patterns of \<open>parse_openai_response\<close> are sequences of literal characters,
  starred character classes (greedy \<open>*\<close> or lazy \<open>*?\<close>) and the bounds of group 1.
  \<open>re_match_here\<close> is the backtracking matcher of \<open>re\<close> on such a sequence, anchored at
  the start of the text: a greedy star first tries to take one more character, a lazy
  star first tries to stop. It returns the texts that remained at each group bound and
  the text that remains after the match. \<open>re_search\<close> tries every start position from
  left to right, as \<open>re.search\<close> does.
\<close>

datatype re_item =
    Lit char
  | Star "char \<Rightarrow> bool"
  | LazyStar "char \<Rightarrow> bool"
  | Bound

fun re_match_here :: "re_item list \<Rightarrow> string \<Rightarrow> (string list \<times> string) option" where
  "re_match_here [] s = Some ([], s)"
| "re_match_here (Lit c # r) [] = None"
| "re_match_here (Lit c # r) (x # xs) = (if x = c then re_match_here r xs else None)"
| "re_match_here (Bound # r) s =
     (case re_match_here r s of
        None \<Rightarrow> None
      | Some (bs, rest) \<Rightarrow> Some (s # bs, rest))"
| "re_match_here (Star p # r) [] = re_match_here r []"
| "re_match_here (Star p # r) (x # xs) =
     (if p x
      then (case re_match_here (Star p # r) xs of
              Some m \<Rightarrow> Some m
            | None \<Rightarrow> re_match_here r (x # xs))
      else re_match_here r (x # xs))"
| "re_match_here (LazyStar p # r) [] = re_match_here r []"
| "re_match_here (LazyStar p # r) (x # xs) =
     (case re_match_here r (x # xs) of
        Some m \<Rightarrow> Some m
      | None \<Rightarrow> (if p x then re_match_here (LazyStar p # r) xs else None))"

text \<open>A match object: the text from the start of the match, the group bounds, the rest.\<close>

fun re_search :: "re_item list \<Rightarrow> string \<Rightarrow> (string \<times> string list \<times> string) option" where
  "re_search r [] =
     (case re_match_here r [] of None \<Rightarrow> None | Some (bs, rest) \<Rightarrow> Some ([], bs, rest))"
| "re_search r (x # xs) =
     (case re_match_here r (x # xs) of
        Some (bs, rest) \<Rightarrow> Some (x # xs, bs, rest)
      | None \<Rightarrow> re_search r xs)"

text \<open>The text between two positions, each given by what remained there.\<close>

definition between :: "string \<Rightarrow> string \<Rightarrow> string" where
  "between from to = take (length from - length to) from"

definition group0 :: "string \<times> string list \<times> string \<Rightarrow> string" where
  "group0 m = (case m of (start, bs, rest) \<Rightarrow> between start rest)"

definition group1 :: "string \<times> string list \<times> string \<Rightarrow> string" where
  "group1 m =
     (case m of
        (start, [b1, b2], rest) \<Rightarrow> between b1 b2
      | _ \<Rightarrow> [])"

definition lits :: "string \<Rightarrow> re_item list" where
  "lits s = map Lit s"

definition any_char :: "char \<Rightarrow> bool" where
  "any_char c = True"

definition not_brace :: "char \<Rightarrow> bool" where
  "not_brace c = (c \<noteq> lbrace \<and> c \<noteq> rbrace)"

text \<open>The pattern of line 394, compiled with \<open>re.DOTALL\<close>: three backticks, \<open>json\<close>,
  \<open>\s*\<close>, group 1 = a left brace, \<open>.*?\<close>, a right brace; then \<open>\s*\<close> and three
  backticks.\<close>

definition fence_pattern :: "re_item list" where
  "fence_pattern =
     lits [backtick, backtick, backtick] @ lits ''json'' @ [Star is_space]
     @ [Bound, Lit lbrace, LazyStar any_char, Lit rbrace, Bound]
     @ [Star is_space] @ lits [backtick, backtick, backtick]"

definition key_literal :: string where
  "key_literal = dquote # ''excessive_loan'' @ [dquote]"

text \<open>The pattern of line 401: a left brace, \<open>[^{}]*\<close>, the key in double quotes,
  \<open>[^{}]*\<close>, a right brace.\<close>

definition inline_pattern :: "re_item list" where
  "inline_pattern =
     [Lit lbrace, Star not_brace] @ lits key_literal @ [Star not_brace, Lit rbrace]"

section \<open>The response extractor\<close>

text \<open>Lines 394 to 407: the text handed to \<open>json.loads\<close>.\<close>

definition extract_json_str :: "string \<Rightarrow> string" where
  "extract_json_str response_text =
     (case re_search fence_pattern response_text of
        Some m \<Rightarrow> group1 m
      | None \<Rightarrow>
          (case re_search inline_pattern response_text of
             Some m \<Rightarrow> group0 m
           | None \<Rightarrow> strip response_text))"

text \<open>
  \<open>parse_openai_response\<close>. The decoder \<open>json.loads\<close> is the parameter \<open>loads\<close>; where
  it raises, \<open>loads\<close> is \<open>None\<close> and the \<open>except\<close> clause returns \<open>None\<close>.
\<close>

definition parse_openai_response :: "(string \<Rightarrow> json option) \<Rightarrow> string \<Rightarrow> dict option" where
  "parse_openai_response loads response_text =
     (case loads (extract_json_str response_text) of
        None \<Rightarrow> None
      | Some result \<Rightarrow> validate_result result)"

section \<open>A JSON decoder\<close>

text \<open>
  The statements about the extractor hold for every decoder \<open>loads\<close>. Where a concrete
  text is evaluated, \<open>json_loads\<close> stands for \<open>json.loads\<close>: the grammar of
  \<open>json.decoder\<close> and \<open>json.scanner\<close> (whitespace is space, tab, line feed and carriage
  return; strings are strict; \<open>NaN\<close>, \<open>Infinity\<close> and \<open>-Infinity\<close> are accepted; the
  last of two equal keys wins; anything after the value but whitespace is an error).
  An escape \<open>\uXXXX\<close> above \<open>00FF\<close> names a character outside the alphabet of this
  model and is not decoded. The first argument of the three mutually recursive functions
  bounds the nesting depth; \<open>json_loads\<close> starts it above the length of the text, and
  every level of nesting consumes a character. The limits of the interpreter (its
  recursion depth, the longest integer literal it converts) are not part of the grammar
  and are not modelled.
\<close>

definition json_ws :: "char \<Rightarrow> bool" where
  "json_ws c = (c = CHR '' '' \<or> c = CHR 0x09 \<or> c = CHR 0x0A \<or> c = CHR 0x0D)"

definition skip_ws :: "string \<Rightarrow> string" where
  "skip_ws s = dropWhile json_ws s"

definition is_digit :: "char \<Rightarrow> bool" where
  "is_digit c = (let n = (of_char c :: nat) in 48 \<le> n \<and> n \<le> 57)"

definition digit_val :: "char \<Rightarrow> nat" where
  "digit_val c = of_char c - 48"

definition digits_val :: "string \<Rightarrow> nat" where
  "digits_val ds = foldl (\<lambda>a c. 10 * a + digit_val c) 0 ds"

definition hex_val :: "char \<Rightarrow> nat option" where
  "hex_val c =
     (let n = (of_char c :: nat)
      in if 48 \<le> n \<and> n \<le> 57 then Some (n - 48)
         else if 65 \<le> n \<and> n \<le> 70 then Some (n - 55)
         else if 97 \<le> n \<and> n \<le> 102 then Some (n - 87)
         else None)"

definition hex4 :: "char \<Rightarrow> char \<Rightarrow> char \<Rightarrow> char \<Rightarrow> nat option" where
  "hex4 a b c d =
     (case (hex_val a, hex_val b, hex_val c, hex_val d) of
        (Some w, Some x, Some y, Some z) \<Rightarrow> Some (((w * 16 + x) * 16 + y) * 16 + z)
      | _ \<Rightarrow> None)"

definition unescape :: "char \<Rightarrow> char option" where
  "unescape e =
     (if e = dquote then Some dquote
      else if e = CHR 0x5C then Some (CHR 0x5C)
      else if e = CHR ''/'' then Some (CHR ''/'')
      else if e = CHR ''b'' then Some (CHR 0x08)
      else if e = CHR ''f'' then Some (CHR 0x0C)
      else if e = CHR ''n'' then Some (CHR 0x0A)
      else if e = CHR ''r'' then Some (CHR 0x0D)
      else if e = CHR ''t'' then Some (CHR 0x09)
      else None)"

definition cons_fst :: "char \<Rightarrow> (string \<times> string) option \<Rightarrow> (string \<times> string) option" where
  "cons_fst c r = (case r of None \<Rightarrow> None | Some (t, rest) \<Rightarrow> Some (c # t, rest))"

text \<open>\<open>scanstring\<close>, from the character after the opening quote.\<close>

fun scan_string :: "string \<Rightarrow> (string \<times> string) option" where
  "scan_string [] = None"
| "scan_string (c # cs) =
     (if c = dquote then Some ([], cs)
      else if c = CHR 0x5C then
        (case cs of
           [] \<Rightarrow> None
         | e # es \<Rightarrow>
             if e = CHR ''u'' then
               (case es of
                  h1 # h2 # h3 # h4 # rest \<Rightarrow>
                    (case hex4 h1 h2 h3 h4 of
                       None \<Rightarrow> None
                     | Some n \<Rightarrow> if n < 256 then cons_fst (char_of n) (scan_string rest) else None)
                | _ \<Rightarrow> None)
             else
               (case unescape e of
                  None \<Rightarrow> None
                | Some ch \<Rightarrow> cons_fst ch (scan_string es)))
      else if (of_char c :: nat) < 32 then None
      else cons_fst c (scan_string cs))"

text \<open>The number pattern \<open>(-?(?:0|[1-9]\d*))(\.\d+)?([eE][-+]?\d+)?\<close>.\<close>

definition scan_int_part :: "string \<Rightarrow> (string \<times> string) option" where
  "scan_int_part s =
     (case s of
        [] \<Rightarrow> None
      | c # cs \<Rightarrow>
          if c = CHR ''0'' then Some ([c], cs)
          else if is_digit c then Some (takeWhile is_digit s, dropWhile is_digit s)
          else None)"

definition scan_frac :: "string \<Rightarrow> (string \<times> string) option" where
  "scan_frac s =
     (case s of
        c # d # cs \<Rightarrow>
          if c = CHR ''.'' \<and> is_digit d
          then Some (takeWhile is_digit (d # cs), dropWhile is_digit (d # cs))
          else None
      | _ \<Rightarrow> None)"

definition scan_exp_digits :: "int \<Rightarrow> string \<Rightarrow> (int \<times> string) option" where
  "scan_exp_digits sign s =
     (case s of
        d # cs \<Rightarrow>
          if is_digit d
          then Some (sign * int (digits_val (takeWhile is_digit s)), dropWhile is_digit s)
          else None
      | _ \<Rightarrow> None)"

definition scan_exp :: "string \<Rightarrow> (int \<times> string) option" where
  "scan_exp s =
     (case s of
        c # cs \<Rightarrow>
          if c = CHR ''e'' \<or> c = CHR ''E'' then
            (case cs of
               d # ds \<Rightarrow>
                 if d = CHR ''-'' then scan_exp_digits (- 1) ds
                 else if d = CHR ''+'' then scan_exp_digits 1 ds
                 else scan_exp_digits 1 cs
             | [] \<Rightarrow> None)
          else None
      | _ \<Rightarrow> None)"

definition scan_number :: "string \<Rightarrow> (json \<times> string) option" where
  "scan_number s =
     (let (sign, s0) = (case s of c # cs \<Rightarrow> if c = CHR ''-'' then (- 1, cs) else (1, s) | [] \<Rightarrow> (1, s))
      in case scan_int_part s0 of
           None \<Rightarrow> None
         | Some (ip, s1) \<Rightarrow>
             (case scan_frac s1 of
                None \<Rightarrow>
                  (case scan_exp s1 of
                     None \<Rightarrow> Some (JInt (sign * int (digits_val ip)), s1)
                   | Some (e, s3) \<Rightarrow> Some (JFloat (sign * int (digits_val ip)) e, s3))
              | Some (fp, s2) \<Rightarrow>
                  (case scan_exp s2 of
                     None \<Rightarrow>
                       Some (JFloat (sign * int (digits_val (ip @ fp))) (- int (length fp)), s2)
                   | Some (e, s3) \<Rightarrow>
                       Some (JFloat (sign * int (digits_val (ip @ fp))) (e - int (length fp)), s3))))"

definition scan_keyword :: "string \<Rightarrow> (json \<times> string) option" where
  "scan_keyword s =
     (if take 4 s = ''null'' then Some (JNull, drop 4 s)
      else if take 4 s = ''true'' then Some (JBool True, drop 4 s)
      else if take 5 s = ''false'' then Some (JBool False, drop 5 s)
      else (case scan_number s of
              Some r \<Rightarrow> Some r
            | None \<Rightarrow>
                if take 3 s = ''NaN'' then Some (JNaN, drop 3 s)
                else if take 8 s = ''Infinity'' then Some (JInfinity False, drop 8 s)
                else if take 9 s = ''-Infinity'' then Some (JInfinity True, drop 9 s)
                else None))"

fun parse_value :: "nat \<Rightarrow> string \<Rightarrow> (json \<times> string) option"
  and parse_members :: "nat \<Rightarrow> dict \<Rightarrow> string \<Rightarrow> (json \<times> string) option"
  and parse_elements :: "nat \<Rightarrow> json list \<Rightarrow> string \<Rightarrow> (json \<times> string) option" where
  "parse_value 0 s = None"
| "parse_value (Suc n) s =
     (case s of
        [] \<Rightarrow> None
      | c # cs \<Rightarrow>
          if c = dquote then
            (case scan_string cs of None \<Rightarrow> None | Some (t, rest) \<Rightarrow> Some (JString t, rest))
          else if c = lbrace then
            (case skip_ws cs of
               [] \<Rightarrow> None
             | d # r \<Rightarrow>
                 if d = rbrace then Some (JObject [], r)
                 else if d = dquote then parse_members n [] r
                 else None)
          else if c = CHR ''['' then
            (case skip_ws cs of
               [] \<Rightarrow> None
             | d # r \<Rightarrow>
                 if d = CHR '']'' then Some (JArray [], r)
                 else parse_elements n [] (d # r))
          else scan_keyword s)"
| "parse_members 0 acc s = None"
| "parse_members (Suc n) acc s =
     (case scan_string s of
        None \<Rightarrow> None
      | Some (key, s1) \<Rightarrow>
          (case skip_ws s1 of
             [] \<Rightarrow> None
           | c # s2 \<Rightarrow>
               if c = CHR '':'' then
                 (case parse_value n (skip_ws s2) of
                    None \<Rightarrow> None
                  | Some (v, s3) \<Rightarrow>
                      (case skip_ws s3 of
                         [] \<Rightarrow> None
                       | d # s4 \<Rightarrow>
                           if d = rbrace then Some (JObject (AList.update key v acc), s4)
                           else if d = CHR '','' then
                             (case skip_ws s4 of
                                [] \<Rightarrow> None
                              | q # s5 \<Rightarrow>
                                  if q = dquote
                                  then parse_members n (AList.update key v acc) s5
                                  else None)
                           else None))
               else None))"
| "parse_elements 0 acc s = None"
| "parse_elements (Suc n) acc s =
     (case parse_value n s of
        None \<Rightarrow> None
      | Some (v, s1) \<Rightarrow>
          (case skip_ws s1 of
             [] \<Rightarrow> None
           | d # s2 \<Rightarrow>
               if d = CHR '']'' then Some (JArray (acc @ [v]), s2)
               else if d = CHR '','' then parse_elements n (acc @ [v]) (skip_ws s2)
               else None))"

definition json_loads :: "string \<Rightarrow> json option" where
  "json_loads s =
     (case parse_value (Suc (length s)) (skip_ws s) of
        None \<Rightarrow> None
      | Some (v, rest) \<Rightarrow> if skip_ws rest = [] then Some v else None)"

section \<open>Intake\<close>

definition image_extensions :: "string list" where
  "image_extensions = [''.jpg'', ''.jpeg'', ''.png'', ''.bmp'', ''.webp'', ''.gif'']"

definition is_image_file :: "string \<Rightarrow> bool" where
  "is_image_file filename = list_ex (\<lambda>ext. endswith (lower filename) ext) image_extensions"

definition is_pdf_file :: "string \<Rightarrow> bool" where
  "is_pdf_file filename = endswith (lower filename) ''.pdf''"

text \<open>An \<open>UploadFile\<close>: its \<open>filename\<close> (which may be \<open>None\<close>) and the bytes that
  \<open>file.file.read()\<close> returns.\<close>

record upload_file =
  filename :: "string option"
  content :: bytes

text \<open>
  An \<open>HTTPException\<close> carries a status code and a detail. The details of the source are
  Korean sentences built around a filename and the text of the caught exception; the
  model keeps which sentence it is and the filename.
\<close>

datatype detail =
    No_files
  | Missing_filename
  | Unsupported_format string
  | Pdf_processing_failed string
  | Image_processing_failed string
  | Pdf_conversion_failed
  | File_upload_failed
  | No_processable_files
  | Analysis_error

datatype http_exception = HTTPException (status_code: nat) (detail: detail)

section \<open>The external services\<close>

text \<open>
  The asset store of the inference service is the list of the assets registered so far:
  file name, bytes and the handle the service gave. \<open>files_create\<close> is the service's
  answer to \<open>client.files.create\<close> in a given store: a handle, or \<open>None\<close> when the call
  raises.
\<close>

type_synonym asset = "string \<times> bytes"

type_synonym store = "(string \<times> bytes \<times> string) list"

text \<open>
  The inference call \<open>client.responses.create\<close> blocks its thread. It ends after some
  seconds, returning a response with the given \<open>output_text\<close> or raising, or it never
  ends.
\<close>

datatype call_result = Returned string | Raised

datatype upstream_call = Completes nat call_result | Hangs

text \<open>An entry of \<open>input_content\<close>: the instruction block (a literal of the source)
  or an image given by its file id.\<close>

datatype content_item = Input_text | Input_image string

text \<open>
  The libraries and services the pipeline calls: \<open>pdf2image.convert_from_bytes\<close> with
  its \<open>dpi\<close> and \<open>fmt\<close> arguments (\<open>None\<close> when it raises), \<open>image.save\<close> of a page
  image with its \<open>format\<close> argument, \<open>Image.open\<close> followed by \<open>verify\<close>, the asset
  store, and the inference call.
\<close>

record 'img env =
  convert_from_bytes :: "bytes \<Rightarrow> nat \<Rightarrow> string \<Rightarrow> 'img list option"
  image_save :: "'img \<Rightarrow> string \<Rightarrow> bytes"
  image_verify :: "bytes \<Rightarrow> bool"
  files_create :: "store \<Rightarrow> asset \<Rightarrow> string option"
  responses_create :: "store \<Rightarrow> content_item list \<Rightarrow> upstream_call"

section \<open>The registrar and the rasterizer\<close>

text \<open>\<open>str(n)\<close> of a natural number.\<close>

function str_nat :: "nat \<Rightarrow> string" where
  "str_nat n =
     (if n < 10 then [char_of (48 + n)]
      else str_nat (n div 10) @ [char_of (48 + n mod 10)])"
  by pat_completeness auto
termination
  by (relation "measure id") auto

text \<open>What an f-string makes of \<open>file.filename\<close>.\<close>

definition filename_str :: "upload_file \<Rightarrow> string" where
  "filename_str f = (case filename f of None \<Rightarrow> ''None'' | Some n \<Rightarrow> n)"

text \<open>\<open>upload_file_to_openai\<close>. On a file without a name \<open>is_image_file\<close> raises; this
  and every other exception becomes an \<open>HTTPException\<close> with status 400.\<close>

definition upload_file_to_openai ::
  "'img env \<Rightarrow> store \<Rightarrow> upload_file \<Rightarrow> (http_exception + string) \<times> store" where
  "upload_file_to_openai env st f =
     (case filename f of
        None \<Rightarrow> (Inl (HTTPException 400 File_upload_failed), st)
      | Some name \<Rightarrow>
          if is_image_file name \<and> \<not> image_verify env (content f)
          then (Inl (HTTPException 400 File_upload_failed), st)
          else (case files_create env st (name, content f) of
                  None \<Rightarrow> (Inl (HTTPException 400 File_upload_failed), st)
                | Some file_id \<Rightarrow> (Inr file_id, st @ [(name, content f, file_id)])))"

definition page_name :: "string \<Rightarrow> nat \<Rightarrow> string" where
  "page_name name i = name @ ''_page_'' @ str_nat (i + 1) @ ''.png''"

text \<open>The loop of \<open>convert_pdf_to_file_ids\<close> over \<open>enumerate(images)\<close>: \<open>i\<close> is the
  index of the next image and \<open>file_ids\<close> the list built so far.\<close>

fun upload_pages ::
  "'img env \<Rightarrow> store \<Rightarrow> string \<Rightarrow> 'img list \<Rightarrow> nat \<Rightarrow> string list
     \<Rightarrow> (http_exception + string list) \<times> store" where
  "upload_pages env st name [] i file_ids = (Inr file_ids, st)"
| "upload_pages env st name (img # images) i file_ids =
     (let image_bytes = image_save env img ''PNG''
      in case files_create env st (page_name name i, image_bytes) of
           None \<Rightarrow> (Inl (HTTPException 400 Pdf_conversion_failed), st)
         | Some file_id \<Rightarrow>
             upload_pages env (st @ [(page_name name i, image_bytes, file_id)]) name images
               (i + 1) (file_ids @ [file_id]))"

definition convert_pdf_to_file_ids ::
  "'img env \<Rightarrow> store \<Rightarrow> upload_file \<Rightarrow> (http_exception + string list) \<times> store" where
  "convert_pdf_to_file_ids env st pdf_file =
     (case convert_from_bytes env (content pdf_file) 200 ''PNG'' of
        None \<Rightarrow> (Inl (HTTPException 400 Pdf_conversion_failed), st)
      | Some images \<Rightarrow> upload_pages env st (filename_str pdf_file) images 0 [])"

section \<open>The inference request\<close>

text \<open>An entry of \<open>file_contents\<close>: type \<open>file_id\<close> or \<open>pdf_file_ids\<close>, the filename
  and the content.\<close>

datatype file_content =
    File_id string string
  | Pdf_file_ids string "string list"

text \<open>Lines 331 to 343: the two nested loops that append to \<open>input_content\<close>.\<close>

fun append_pdf_ids :: "string list \<Rightarrow> content_item list \<Rightarrow> content_item list" where
  "append_pdf_ids [] input_content = input_content"
| "append_pdf_ids (file_id # file_ids) input_content =
     append_pdf_ids file_ids (input_content @ [Input_image file_id])"

fun append_file_contents :: "file_content list \<Rightarrow> content_item list \<Rightarrow> content_item list" where
  "append_file_contents [] input_content = input_content"
| "append_file_contents (File_id name file_id # fcs) input_content =
     append_file_contents fcs (input_content @ [Input_image file_id])"
| "append_file_contents (Pdf_file_ids name file_ids # fcs) input_content =
     append_file_contents fcs (append_pdf_ids file_ids input_content)"

definition build_input_content :: "file_content list \<Rightarrow> content_item list" where
  "build_input_content file_contents = append_file_contents file_contents [Input_text]"

section \<open>The bounded invocation\<close>

datatype outcome = Success string | TimedOut | UpstreamFailure

definition timeout_seconds :: nat where
  "timeout_seconds = 90"

text \<open>\<open>future.result(timeout=90)\<close>: the result of the call when it ends within the
  timeout, \<open>TimeoutError\<close> otherwise. Time is counted in whole seconds from the
  submission; a call that ends at the very moment the timeout expires is taken to be in
  time, and no statement below depends on that choice.\<close>

definition future_result :: "upstream_call \<Rightarrow> outcome" where
  "future_result call =
     (case call of
        Completes d (Returned response_text) \<Rightarrow>
          if d \<le> timeout_seconds then Success response_text else TimedOut
      | Completes d Raised \<Rightarrow> if d \<le> timeout_seconds then UpstreamFailure else TimedOut
      | Hangs \<Rightarrow> TimedOut)"

text \<open>The value that the \<open>try\<close> statement of lines 356 to 385 hands to \<open>return\<close>.
  \<open>if parsed_result\<close> is false on \<open>None\<close> and on an empty dict.\<close>

definition select_result :: "(string \<Rightarrow> json option) \<Rightarrow> outcome \<Rightarrow> dict" where
  "select_result loads out =
     (case out of
        Success response_text \<Rightarrow>
          (case parse_openai_response loads response_text of
             None \<Rightarrow> get_default_analysis_result
           | Some parsed_result \<Rightarrow>
               if parsed_result = [] then get_default_analysis_result else parsed_result)
      | TimedOut \<Rightarrow> get_default_analysis_result
      | UpstreamFailure \<Rightarrow> get_default_analysis_result)"

text \<open>
  Every \<open>return\<close> of the function leaves the block
  \<open>with ThreadPoolExecutor(max_workers=1) as executor\<close>, whose exit is
  \<open>executor.shutdown(wait=True)\<close>: it joins the worker thread, which is still running
  the call when the timeout has expired. \<open>executor_exit\<close> is the number of seconds after
  submission at which the block is left, \<open>None\<close> when it never is.
\<close>

definition executor_exit :: "upstream_call \<Rightarrow> nat option" where
  "executor_exit call = (case call of Completes d r \<Rightarrow> Some d | Hangs \<Rightarrow> None)"

text \<open>\<open>analyze_files_with_openai\<close>: \<open>None\<close> when the function never returns.\<close>

definition analyze_files_with_openai ::
  "'img env \<Rightarrow> (string \<Rightarrow> json option) \<Rightarrow> store \<Rightarrow> file_content list \<Rightarrow> dict option" where
  "analyze_files_with_openai env loads st file_contents =
     (let call = responses_create env st (build_input_content file_contents)
      in case executor_exit call of
           None \<Rightarrow> None
         | Some t \<Rightarrow> Some (select_result loads (future_result call)))"

section \<open>The endpoint\<close>

text \<open>The loop of \<open>analyze_house\<close> over \<open>files\<close>; \<open>not file.filename\<close> holds for
  \<open>None\<close> and for the empty name.\<close>

fun process_files ::
  "'img env \<Rightarrow> store \<Rightarrow> upload_file list \<Rightarrow> file_content list
     \<Rightarrow> (http_exception + file_content list) \<times> store" where
  "process_files env st [] file_contents = (Inr file_contents, st)"
| "process_files env st (f # files) file_contents =
     (case filename f of
        None \<Rightarrow> (Inl (HTTPException 400 Missing_filename), st)
      | Some name \<Rightarrow>
          if name = [] then (Inl (HTTPException 400 Missing_filename), st)
          else if is_pdf_file name then
            (case convert_pdf_to_file_ids env st f of
               (Inl e, st') \<Rightarrow> (Inl (HTTPException 400 (Pdf_processing_failed name)), st')
             | (Inr pdf_file_ids, st') \<Rightarrow>
                 process_files env st' files (file_contents @ [Pdf_file_ids name pdf_file_ids]))
          else if is_image_file name then
            (case upload_file_to_openai env st f of
               (Inl e, st') \<Rightarrow> (Inl (HTTPException 400 (Image_processing_failed name)), st')
             | (Inr file_id, st') \<Rightarrow>
                 process_files env st' files (file_contents @ [File_id name file_id]))
          else (Inl (HTTPException 400 (Unsupported_format name)), st))"

text \<open>
  \<open>analyze_house\<close>: the response (\<open>Inr\<close> is the body of a 200 response, \<open>Inl\<close> an error
  response, \<open>None\<close> no response at all) and the asset store it leaves. A
  \<open>ValidationError\<close> of the response model is caught by \<open>except Exception\<close> and becomes
  status 500.
\<close>

definition analyze_house ::
  "'img env \<Rightarrow> (string \<Rightarrow> json option) \<Rightarrow> store \<Rightarrow> upload_file list
     \<Rightarrow> (http_exception + AnalysisResponse) option \<times> store" where
  "analyze_house env loads st files =
     (if files = [] then (Some (Inl (HTTPException 400 No_files)), st)
      else case process_files env st files [] of
             (Inl e, st') \<Rightarrow> (Some (Inl e), st')
           | (Inr file_contents, st') \<Rightarrow>
               if file_contents = []
               then (Some (Inl (HTTPException 400 No_processable_files)), st')
               else (case analyze_files_with_openai env loads st' file_contents of
                       None \<Rightarrow> (None, st')
                     | Some analysis_result \<Rightarrow>
                         (case make_AnalysisResponse analysis_result of
                            None \<Rightarrow> (Some (Inl (HTTPException 500 Analysis_error)), st')
                          | Some response \<Rightarrow> (Some (Inr response), st'))))"

section \<open>Notions of the specification\<close>

text \<open>
  The Intake Classifier of the specification: an item is an image or a PDF by the
  extension of its filename; an item with another extension or without a filename is
  not classified.
\<close>

datatype kind = Image | Pdf

definition classify :: "upload_file \<Rightarrow> kind option" where
  "classify f =
     (case filename f of
        None \<Rightarrow> None
      | Some name \<Rightarrow>
          if name = [] then None
          else if endswith (lower name) ''.pdf'' then Some Pdf
          else if list_ex (endswith (lower name)) [''.jpg'', ''.jpeg'', ''.png'', ''.bmp'', ''.webp'', ''.gif'']
          then Some Image else None)"

text \<open>
  The visual assets of a document, as the specification defines them: the whole image,
  or the pages of the PDF in page order, each under the name and with the bytes that it
  is submitted with.
\<close>

definition visual_assets :: "'img env \<Rightarrow> upload_file \<Rightarrow> asset list" where
  "visual_assets env f =
     (if is_pdf_file (filename_str f) then
        (case convert_from_bytes env (content f) 200 ''PNG'' of
           None \<Rightarrow> []
         | Some images \<Rightarrow>
             map (\<lambda>(i, img). (page_name (filename_str f) i, image_save env img ''PNG''))
               (enumerate 0 images))
      else [(filename_str f, content f)])"

text \<open>An entry of the asset store: the asset that was registered and its handle.\<close>

definition asset_of :: "string \<times> bytes \<times> string \<Rightarrow> asset" where
  "asset_of r = (case r of (name, b, h) \<Rightarrow> (name, b))"

definition handle_of :: "string \<times> bytes \<times> string \<Rightarrow> string" where
  "handle_of r = (case r of (name, b, h) \<Rightarrow> h)"

fun file_ids_of :: "file_content \<Rightarrow> string list" where
  "file_ids_of (File_id name file_id) = [file_id]"
| "file_ids_of (Pdf_file_ids name file_ids) = file_ids"

text \<open>
  The three extraction strategies of the specification, each giving a candidate text or
  nothing, and the result the specification describes: that of the first strategy whose
  candidate is decoded.
\<close>

definition strategy1 :: "string \<Rightarrow> string option" where
  "strategy1 raw = map_option group1 (re_search fence_pattern raw)"

definition strategy2 :: "string \<Rightarrow> string option" where
  "strategy2 raw = map_option group0 (re_search inline_pattern raw)"

definition strategy3 :: "string \<Rightarrow> string option" where
  "strategy3 raw = Some (strip raw)"

definition first_valid :: "(string \<Rightarrow> json option) \<Rightarrow> string \<Rightarrow> json option" where
  "first_valid loads raw =
     (case Option.bind (strategy1 raw) loads of
        Some v \<Rightarrow> Some v
      | None \<Rightarrow>
          (case Option.bind (strategy2 raw) loads of
             Some v \<Rightarrow> Some v
           | None \<Rightarrow> Option.bind (strategy3 raw) loads))"






section \<open>Sample inputs\<close>

text \<open>A decoded answer whose first value is \<open>null\<close>, and one with string values.\<close>

definition answer_with_null :: dict where
  "answer_with_null =
     [(''excessive_loan'', JNull),
      (''rights_restriction'', JBool False),
      (''trust_property'', JBool False),
      (''residential_use'', JBool True),
      (''tax_delinquency'', JBool False),
      (''owner_verification'', JBool True)]"

definition answer_with_strings :: dict where
  "answer_with_strings =
     [(''excessive_loan'', JString ''TRUE''),
      (''rights_restriction'', JString ''no''),
      (''trust_property'', JBool False),
      (''residential_use'', JString ''Yes''),
      (''tax_delinquency'', JString ''0''),
      (''owner_verification'', JBool True)]"

text \<open>A decoded answer whose first value is the number 1.\<close>

definition answer_with_one :: dict where
  "answer_with_one =
     [(''excessive_loan'', JInt 1),
      (''rights_restriction'', JBool False),
      (''trust_property'', JBool False),
      (''residential_use'', JBool True),
      (''tax_delinquency'', JBool False),
      (''owner_verification'', JBool True)]"

text \<open>An answer text: a JSON object with the six keys, the first value as given.\<close>

definition quoted :: "string \<Rightarrow> string" where
  "quoted s = dquote # s @ [dquote]"

definition six_fields_text :: "string \<Rightarrow> string" where
  "six_fields_text first =
     [lbrace] @ quoted ''excessive_loan'' @ '': '' @ first @ '', ''
     @ quoted ''rights_restriction'' @ '': false, ''
     @ quoted ''trust_property'' @ '': false, ''
     @ quoted ''residential_use'' @ '': true, ''
     @ quoted ''tax_delinquency'' @ '': false, ''
     @ quoted ''owner_verification'' @ '': true'' @ [rbrace]"

text \<open>
  Test doubles of the services. A PDF has one page per byte, and the bytes \<open>corrupt\<close>
  are neither a PDF nor an image; the store refuses the bytes \<open>rejected\<close> and numbers
  its handles; the inference call behaves as given.
\<close>

definition mock_env :: "upstream_call \<Rightarrow> string env" where
  "mock_env call =
     \<lparr>convert_from_bytes =
        (\<lambda>b dpi fmt. if b = ''corrupt'' then None else Some (map (\<lambda>c. [c]) b)),
      image_save = (\<lambda>img fmt. fmt @ '':'' @ img),
      image_verify = (\<lambda>b. b \<noteq> ''corrupt''),
      files_create =
        (\<lambda>st a. if snd a = ''rejected'' then None else Some (''file-'' @ str_nat (length st))),
      responses_create = (\<lambda>st input_content. call)\<rparr>"

definition deed_jpg :: upload_file where
  "deed_jpg = \<lparr>filename = Some ''deed.jpg'', content = ''JFIF''\<rparr>"



text \<open>More uploads: an unsupported type, a PDF of two pages, a corrupt PDF.\<close>

definition report_docx :: upload_file where
  "report_docx = \<lparr>filename = Some ''report.docx'', content = ''PK''\<rparr>"

definition registry_pdf :: upload_file where
  "registry_pdf = \<lparr>filename = Some ''registry.pdf'', content = ''ab''\<rparr>"

definition corrupt_pdf :: upload_file where
  "corrupt_pdf = \<lparr>filename = Some ''bad.pdf'', content = ''corrupt''\<rparr>"

text \<open>
  An answer text: a fenced block that is not JSON followed by a complete inline
  object.
\<close>

definition fenced_garbage_text :: string where
  "fenced_garbage_text =
     [backtick, backtick, backtick] @ ''json '' @ [lbrace] @ ''oops'' @ [rbrace] @ '' ''
     @ [backtick, backtick, backtick] @ '' '' @ six_fields_text ''true''"

definition answer_all_true_first :: dict where
  "answer_all_true_first =
     [(''excessive_loan'', JBool True),
      (''rights_restriction'', JBool False),
      (''trust_property'', JBool False),
      (''residential_use'', JBool True),
      (''tax_delinquency'', JBool False),
      (''owner_verification'', JBool True)]"




section \<open>Properties of the validation step\<close>

lemma map_of_normalize_keys:
  "map_of (normalize_keys ks d) k =
     (if k \<in> set ks
      then (case map_of d k of
              Some (JString s) \<Rightarrow> Some (JBool (List.member truthy_tokens (lower s)))
            | v \<Rightarrow> v)
      else map_of d k)"
proof (induction ks arbitrary: d)
  case Nil
  then show ?case by simp
next
  case (Cons a ks)
  show ?case
    by (auto simp: Cons.IH update_conv' split: option.splits json.splits)
qed

lemma lower_examples:
  "List.member truthy_tokens (lower ''TRUE'')"
  "\<not> List.member truthy_tokens (lower ''no'')"
  by code_simp+

text \<open>
  C3 (as amended). For every decoded object that has the six required keys, validation
  succeeds; a required key whose value is a string gets the boolean that says whether
  the lowercased string is one of \<open>true\<close>, \<open>1\<close>, \<open>yes\<close>; every value that is not a
  string (a boolean, but also \<open>null\<close>, a number, a list or an object) is left exactly as
  it was, and keys outside the six are untouched. So the result has six booleans
  whenever each required value was a boolean or a string.
\<close>

theorem validate_result_normalizes_strings:
  assumes "list_all (\<lambda>key. map_of d key \<noteq> None) required_keys"
  shows "\<exists>d'. validate_result (JObject d) = Some d'
     \<and> (\<forall>k s. k \<in> set required_keys \<longrightarrow> map_of d k = Some (JString s) \<longrightarrow>
            map_of d' k = Some (JBool (List.member truthy_tokens (lower s))))
     \<and> (\<forall>k v. map_of d k = Some v \<longrightarrow> (\<forall>s. v \<noteq> JString s) \<longrightarrow> map_of d' k = Some v)
     \<and> (\<forall>k. k \<notin> set required_keys \<longrightarrow> map_of d' k = map_of d k)
     \<and> ((\<forall>k \<in> set required_keys. \<exists>b s. map_of d k = Some (JBool b) \<or> map_of d k = Some (JString s))
          \<longrightarrow> (\<forall>k \<in> set required_keys. \<exists>b. map_of d' k = Some (JBool b)))"
proof -
  let ?d' = "normalize_keys required_keys d"
  have v: "validate_result (JObject d) = Some ?d'"
    using assms by (simp add: validate_result_def)
  have a: "\<forall>k s. k \<in> set required_keys \<longrightarrow> map_of d k = Some (JString s) \<longrightarrow>
            map_of ?d' k = Some (JBool (List.member truthy_tokens (lower s)))"
    by (simp add: map_of_normalize_keys)
  have b: "\<forall>k v. map_of d k = Some v \<longrightarrow> (\<forall>s. v \<noteq> JString s) \<longrightarrow> map_of ?d' k = Some v"
    by (auto simp: map_of_normalize_keys split: json.splits)
  have c: "\<forall>k. k \<notin> set required_keys \<longrightarrow> map_of ?d' k = map_of d k"
    by (simp add: map_of_normalize_keys)
  have e: "(\<forall>k \<in> set required_keys. \<exists>b s. map_of d k = Some (JBool b) \<or> map_of d k = Some (JString s))
          \<longrightarrow> (\<forall>k \<in> set required_keys. \<exists>b. map_of ?d' k = Some (JBool b))"
    by (auto simp: map_of_normalize_keys)
  from v a b c e show ?thesis by blast
qed

text \<open>The theorem at an answer with the strings \<open>TRUE\<close> and \<open>no\<close> and a boolean.\<close>

theorem validate_result_normalizes_strings_witness:
  "list_all (\<lambda>key. map_of answer_with_strings key \<noteq> None) required_keys
   \<and> (\<exists>d'. validate_result (JObject answer_with_strings) = Some d'
         \<and> map_of d' ''excessive_loan'' = Some (JBool True)
         \<and> map_of d' ''rights_restriction'' = Some (JBool False)
         \<and> map_of d' ''trust_property'' = Some (JBool False))"
proof -
  have h: "list_all (\<lambda>key. map_of answer_with_strings key \<noteq> None) required_keys"
    by (simp add: answer_with_strings_def required_keys_def)
  from validate_result_normalizes_strings [OF h] obtain d' where
    v: "validate_result (JObject answer_with_strings) = Some d'" and
    s: "\<And>k s. k \<in> set required_keys \<Longrightarrow> map_of answer_with_strings k = Some (JString s) \<Longrightarrow>
            map_of d' k = Some (JBool (List.member truthy_tokens (lower s)))" and
    o: "\<And>k v. map_of answer_with_strings k = Some v \<Longrightarrow> (\<forall>s. v \<noteq> JString s) \<Longrightarrow>
            map_of d' k = Some v"
    by blast
  have a: "map_of d' ''excessive_loan'' = Some (JBool True)"
    using s [of "''excessive_loan''" "''TRUE''"] lower_examples(1)
    by (simp add: required_keys_def answer_with_strings_def)
  have b: "map_of d' ''rights_restriction'' = Some (JBool False)"
    using s [of "''rights_restriction''" "''no''"] lower_examples(2)
    by (simp add: required_keys_def answer_with_strings_def)
  have c: "map_of d' ''trust_property'' = Some (JBool False)"
    using o [of "''trust_property''" "JBool False"]
    by (simp add: answer_with_strings_def)
  from h v a b c show ?thesis by blast
qed

text \<open>
  C3 as stated fails: an answer with the six keys whose \<open>excessive_loan\<close> is \<open>null\<close>
  passes validation unchanged; the \<open>null\<close> is not turned into \<open>false\<close>.
\<close>

theorem validate_result_keeps_null:
  "validate_result (JObject answer_with_null) = Some answer_with_null
   \<and> map_of answer_with_null ''excessive_loan'' = Some JNull
   \<and> JNull \<noteq> JBool False"
  by (simp add: validate_result_def answer_with_null_def required_keys_def)

section \<open>Properties of the endpoint\<close>


lemma process_files_length:
  "process_files env st files acc = (Inr fcs, st') \<Longrightarrow> length fcs = length acc + length files"
proof (induction files arbitrary: st acc)
  case Nil
  then show ?case by simp
next
  case (Cons f files)
  then show ?case
    by (fastforce split: option.splits if_splits prod.splits sum.splits)
qed

lemma process_files_status:
  "process_files env st files acc = (Inl e, st') \<Longrightarrow> status_code e = 400"
proof (induction files arbitrary: st acc)
  case Nil
  then show ?case by simp
next
  case (Cons f files)
  then show ?case
    by (fastforce split: option.splits if_splits prod.splits sum.splits)
qed

lemma process_files_append:
  "process_files env st (pre @ rest) acc =
     (case process_files env st pre acc of
        (Inl e, st') \<Rightarrow> (Inl e, st')
      | (Inr acc', st') \<Rightarrow> process_files env st' rest acc')"
proof (induction pre arbitrary: st acc)
  case Nil
  then show ?case by simp
next
  case (Cons f pre)
  show ?case
    by (simp add: Cons.IH split: option.splits prod.splits sum.splits)
qed

lemma analyze_house_processed:
  assumes "files \<noteq> []" and "process_files env st files [] = (Inr fcs, st')"
  shows "analyze_house env loads st files =
     (case analyze_files_with_openai env loads st' fcs of
        None \<Rightarrow> (None, st')
      | Some analysis_result \<Rightarrow>
          (case make_AnalysisResponse analysis_result of
             None \<Rightarrow> (Some (Inl (HTTPException 500 Analysis_error)), st')
           | Some response \<Rightarrow> (Some (Inr response), st')))"
proof -
  from process_files_length [OF assms(2)] assms(1) have "fcs \<noteq> []" by auto
  with assms show ?thesis by (simp add: analyze_house_def)
qed

lemma analyze_house_rejected:
  assumes "process_files env st files [] = (Inl e, st')"
  shows "analyze_house env loads st files = (Some (Inl e), st')"
proof -
  from assms have "files \<noteq> []" by auto
  with assms show ?thesis by (simp add: analyze_house_def)
qed

lemma analyze_files_ended:
  assumes "responses_create env st (build_input_content fcs) = Completes t r"
  shows "analyze_files_with_openai env loads st fcs =
           Some (select_result loads (future_result (Completes t r)))"
  using assms by (simp add: analyze_files_with_openai_def executor_exit_def)

lemma field_None_make:
  assumes "k \<in> set required_keys" and "field d k = None"
  shows "make_AnalysisResponse d = None"
  using assms by (auto simp: make_AnalysisResponse_def required_keys_def split: option.splits)

lemma null_text_decodes:
  "json_loads (extract_json_str (six_fields_text ''null'')) = Some (JObject answer_with_null)"
  by code_simp

lemma deed_processed:
  "process_files (mock_env call) [] [deed_jpg] [] =
     (Inr [File_id ''deed.jpg'' ''file-0''], [(''deed.jpg'', ''JFIF'', ''file-0'')])"
  by code_simp

subsection \<open>Values the response model refuses\<close>

text \<open>
  C9 (as amended). When the files are processed, the inference call returns in time and
  the extracted object has the six keys, a required value that is not a string and that
  the response model cannot convert to a boolean (\<open>null\<close>, a list, an object, a number
  other than 0 and 1) passes validation unchanged, and the endpoint answers with status
  500: neither that object nor the Fallback Verdict is returned.
\<close>

theorem unconvertible_value_gives_500:
  assumes "files \<noteq> []"
    and "process_files env st files [] = (Inr fcs, st')"
    and "responses_create env st' (build_input_content fcs) = Completes t (Returned raw_text)"
    and "t < timeout_seconds"
    and "loads (extract_json_str raw_text) = Some (JObject d)"
    and "list_all (\<lambda>key. map_of d key \<noteq> None) required_keys"
    and "k \<in> set required_keys"
    and "map_of d k = Some v"
    and "\<forall>s. v \<noteq> JString s"
    and "bool_validator v = None"
  shows "\<exists>d'. parse_openai_response loads raw_text = Some d' \<and> map_of d' k = Some v
           \<and> analyze_house env loads st files =
               (Some (Inl (HTTPException 500 Analysis_error)), st')"
proof -
  let ?d' = "normalize_keys required_keys d"
  have p: "parse_openai_response loads raw_text = Some ?d'"
    using assms(5,6) by (simp add: parse_openai_response_def validate_result_def)
  have m: "map_of ?d' k = Some v"
    using assms(7,8,9) by (auto simp: map_of_normalize_keys split: json.splits)
  then have ne: "?d' \<noteq> []" by auto
  have sel: "select_result loads (future_result (Completes t (Returned raw_text))) = ?d'"
    using p ne assms(4) by (simp add: select_result_def future_result_def)
  have f: "field ?d' k = None"
    using m assms(10) by (simp add: field_def)
  have mk: "make_AnalysisResponse ?d' = None"
    by (rule field_None_make [OF assms(7) f])
  have "analyze_house env loads st files = (Some (Inl (HTTPException 500 Analysis_error)), st')"
    using analyze_house_processed [OF assms(1,2), of loads]
      analyze_files_ended [OF assms(3), of loads] sel mk
    by simp
  with p m show ?thesis by blast
qed

text \<open>The theorem at one image and an answer whose \<open>excessive_loan\<close> is \<open>null\<close>.\<close>

theorem unconvertible_value_gives_500_witness:
  "process_files (mock_env (Completes 3 (Returned (six_fields_text ''null'')))) [] [deed_jpg] [] =
     (Inr [File_id ''deed.jpg'' ''file-0''], [(''deed.jpg'', ''JFIF'', ''file-0'')])
   \<and> json_loads (extract_json_str (six_fields_text ''null'')) = Some (JObject answer_with_null)
   \<and> map_of answer_with_null ''excessive_loan'' = Some JNull
   \<and> bool_validator JNull = None
   \<and> (\<exists>d'. parse_openai_response json_loads (six_fields_text ''null'') = Some d'
          \<and> map_of d' ''excessive_loan'' = Some JNull
          \<and> analyze_house (mock_env (Completes 3 (Returned (six_fields_text ''null''))))
               json_loads [] [deed_jpg] =
              (Some (Inl (HTTPException 500 Analysis_error)),
               [(''deed.jpg'', ''JFIF'', ''file-0'')]))"
proof -
  let ?env = "mock_env (Completes 3 (Returned (six_fields_text ''null'')))"
  have h1: "[deed_jpg] \<noteq> []" by simp
  have h2: "process_files ?env [] [deed_jpg] [] =
     (Inr [File_id ''deed.jpg'' ''file-0''], [(''deed.jpg'', ''JFIF'', ''file-0'')])"
    by (rule deed_processed)
  have h3: "responses_create ?env [(''deed.jpg'', ''JFIF'', ''file-0'')]
      (build_input_content [File_id ''deed.jpg'' ''file-0'']) =
      Completes 3 (Returned (six_fields_text ''null''))"
    by (simp add: mock_env_def)
  have h4: "(3::nat) < timeout_seconds" by (simp add: timeout_seconds_def)
  have h5: "json_loads (extract_json_str (six_fields_text ''null'')) =
      Some (JObject answer_with_null)"
    by (rule null_text_decodes)
  have h6: "list_all (\<lambda>key. map_of answer_with_null key \<noteq> None) required_keys"
    by (simp add: answer_with_null_def required_keys_def)
  have h7: "''excessive_loan'' \<in> set required_keys" by (simp add: required_keys_def)
  have h8: "map_of answer_with_null ''excessive_loan'' = Some JNull"
    by (simp add: answer_with_null_def)
  have h9: "\<forall>s. JNull \<noteq> JString s" by simp
  have h10: "bool_validator JNull = None" by simp
  from unconvertible_value_gives_500
         [where loads = json_loads and raw_text = "six_fields_text ''null''",
          OF h1 h2 h3 h4 h5 h6 h7 h8 h9 h10] h2 h5 h8 h10
  show ?thesis by blast
qed

text \<open>
  C9 as stated fails: the number 1 is neither a boolean nor a string, validation leaves
  it as it is, and the response model converts it; the endpoint answers 200 with
  \<open>excessive_loan = true\<close>.
\<close>

theorem number_one_is_converted:
  "json_loads (extract_json_str (six_fields_text ''1'')) = Some (JObject answer_with_one)
   \<and> parse_openai_response json_loads (six_fields_text ''1'') = Some answer_with_one
   \<and> analyze_house (mock_env (Completes 3 (Returned (six_fields_text ''1'')))) json_loads []
        [deed_jpg] =
      (Some (Inr \<lparr>excessive_loan = True, rights_restriction = False, trust_property = False,
                  residential_use = True, tax_delinquency = False, owner_verification = True\<rparr>),
       [(''deed.jpg'', ''JFIF'', ''file-0'')])"
  by code_simp

text \<open>
  The number 0 fares like the number 1: it is left as it is and converted to
  \<open>false\<close>.
\<close>

lemma number_zero_is_converted:
  "parse_openai_response json_loads (six_fields_text ''0'') =
     Some [(''excessive_loan'', JInt 0), (''rights_restriction'', JBool False),
           (''trust_property'', JBool False), (''residential_use'', JBool True),
           (''tax_delinquency'', JBool False), (''owner_verification'', JBool True)]
   \<and> analyze_house (mock_env (Completes 3 (Returned (six_fields_text ''0'')))) json_loads []
        [deed_jpg] =
      (Some (Inr \<lparr>excessive_loan = False, rights_restriction = False, trust_property = False,
                  residential_use = True, tax_delinquency = False, owner_verification = True\<rparr>),
       [(''deed.jpg'', ''JFIF'', ''file-0'')])"
  by code_simp

subsection \<open>The fallback and the wait for the inference call\<close>


text \<open>A call that ends after the timeout is waited for until it ends.\<close>

lemma late_call_is_awaited:
  assumes "responses_create env st (build_input_content fcs) = Completes t r"
    and "timeout_seconds < t"
  shows "future_result (Completes t r) = TimedOut"
    and "analyze_files_with_openai env loads st fcs = Some get_default_analysis_result"
    and "executor_exit (Completes t r) = Some t"
  using assms
  by (auto simp: future_result_def analyze_files_with_openai_def executor_exit_def
      select_result_def split: call_result.splits)

text \<open>
  C1, at the input where the code departs from it: one valid image and an inference
  call that never ends. The invocation times out, and the endpoint gives no response at
  all, where the claim has it return the Fallback Verdict.
\<close>

theorem no_response_when_call_hangs:
  "future_result Hangs = TimedOut
   \<and> analyze_house (mock_env Hangs) json_loads [] [deed_jpg] =
       (None, [(''deed.jpg'', ''JFIF'', ''file-0'')])"
  by code_simp

text \<open>
  C5, at the input where the code departs from it: whatever the other services are, an
  inference call that never ends is timed out by \<open>future.result\<close>, and
  \<open>analyze_files_with_openai\<close> then never returns, since leaving the executor's block
  waits for the call.
\<close>

theorem hanging_call_is_awaited:
  "future_result Hangs = TimedOut
   \<and> analyze_files_with_openai (env\<lparr>responses_create := (\<lambda>st input_content. Hangs)\<rparr>)
        loads st fcs = None"
  by (simp add: future_result_def analyze_files_with_openai_def executor_exit_def)

subsection \<open>Upstream errors\<close>




subsection \<open>Intake\<close>

lemma process_files_invalid:
  "\<exists>f \<in> set files. classify f = None \<Longrightarrow> \<exists>e st'. process_files env st files acc = (Inl e, st')"
proof (induction files arbitrary: st acc)
  case Nil
  then show ?case by simp
next
  case (Cons f files)
  show ?case
  proof (cases "classify f = None")
    case True
    then show ?thesis
      by (auto simp: classify_def is_pdf_file_def is_image_file_def image_extensions_def
          split: option.splits if_splits)
  next
    case False
    with Cons.prems have "\<exists>g \<in> set files. classify g = None" by auto
    from Cons.IH [OF this] show ?thesis
      by (simp split: option.splits prod.splits sum.splits)
  qed
qed

text \<open>
  C7 (as amended). An item without a filename, or whose lowercased filename ends in
  none of \<open>.pdf\<close>, \<open>.jpg\<close>, \<open>.jpeg\<close>, \<open>.png\<close>, \<open>.bmp\<close>, \<open>.webp\<close>,
  \<open>.gif\<close>, aborts the request with a validation error of status 400 once the items
  before it have been processed; the asset store is then the one those items left, so
  what they registered stays registered. Whatever the other items are, a request with
  such an item is answered with a status 400 error and never with a Verdict.
\<close>

theorem invalid_item_aborts_request:
  "(process_files env st pre [] = (Inr acc, st1) \<longrightarrow> (filename f = None \<or> filename f = Some []) \<longrightarrow>
      analyze_house env loads st (pre @ f # post) =
        (Some (Inl (HTTPException 400 Missing_filename)), st1))
   \<and> (process_files env st pre [] = (Inr acc, st1) \<longrightarrow> filename f = Some name \<longrightarrow> name \<noteq> [] \<longrightarrow>
      \<not> endswith (lower name) ''.pdf'' \<longrightarrow>
      \<not> list_ex (endswith (lower name)) [''.jpg'', ''.jpeg'', ''.png'', ''.bmp'', ''.webp'', ''.gif''] \<longrightarrow>
      analyze_house env loads st (pre @ f # post) =
        (Some (Inl (HTTPException 400 (Unsupported_format name))), st1))
   \<and> ((\<exists>f \<in> set files. classify f = None) \<longrightarrow>
      (\<exists>d st'. analyze_house env loads st files = (Some (Inl (HTTPException 400 d)), st')))"
proof (intro conjI impI)
  assume a: "process_files env st pre [] = (Inr acc, st1)" "filename f = None \<or> filename f = Some []"
  have "process_files env st (pre @ f # post) [] = (Inl (HTTPException 400 Missing_filename), st1)"
    using a by (auto simp: process_files_append)
  then show "analyze_house env loads st (pre @ f # post) =
        (Some (Inl (HTTPException 400 Missing_filename)), st1)"
    by (rule analyze_house_rejected)
next
  assume a: "process_files env st pre [] = (Inr acc, st1)" "filename f = Some name" "name \<noteq> []"
    "\<not> endswith (lower name) ''.pdf''"
    "\<not> list_ex (endswith (lower name)) [''.jpg'', ''.jpeg'', ''.png'', ''.bmp'', ''.webp'', ''.gif'']"
  have "process_files env st (pre @ f # post) [] =
      (Inl (HTTPException 400 (Unsupported_format name)), st1)"
    using a by (simp add: process_files_append is_pdf_file_def is_image_file_def image_extensions_def)
  then show "analyze_house env loads st (pre @ f # post) =
        (Some (Inl (HTTPException 400 (Unsupported_format name))), st1)"
    by (rule analyze_house_rejected)
next
  assume "\<exists>f \<in> set files. classify f = None"
  from process_files_invalid [OF this] obtain e st' where
    p: "process_files env st files [] = (Inl e, st')" by blast
  from process_files_status [OF p] have "e = HTTPException 400 (detail e)"
    by (cases e) simp
  with analyze_house_rejected [OF p, of loads]
  show "\<exists>d st'. analyze_house env loads st files = (Some (Inl (HTTPException 400 d)), st')"
    by metis
qed

text \<open>
  The theorem at a request with an unsupported file, and one with a nameless file,
  after a valid image.
\<close>

theorem invalid_item_aborts_request_witness:
  "process_files (mock_env Hangs) [] [deed_jpg] [] =
     (Inr [File_id ''deed.jpg'' ''file-0''], [(''deed.jpg'', ''JFIF'', ''file-0'')])
   \<and> classify report_docx = None
   \<and> analyze_house (mock_env Hangs) json_loads [] ([deed_jpg] @ report_docx # [deed_jpg]) =
        (Some (Inl (HTTPException 400 (Unsupported_format ''report.docx''))),
         [(''deed.jpg'', ''JFIF'', ''file-0'')])
   \<and> analyze_house (mock_env Hangs) json_loads []
        ([deed_jpg] @ \<lparr>filename = None, content = ''JFIF''\<rparr> # [deed_jpg]) =
        (Some (Inl (HTTPException 400 Missing_filename)), [(''deed.jpg'', ''JFIF'', ''file-0'')])
   \<and> (\<exists>d st'. analyze_house (mock_env Hangs) json_loads [] [deed_jpg, report_docx] =
          (Some (Inl (HTTPException 400 d)), st'))"
proof -
  let ?env = "mock_env Hangs"
  let ?st1 = "[(''deed.jpg'', ''JFIF'', ''file-0'')]"
  let ?nameless = "\<lparr>filename = None, content = ''JFIF''\<rparr>"
  have p: "process_files ?env [] [deed_jpg] [] = (Inr [File_id ''deed.jpg'' ''file-0''], ?st1)"
    by (rule deed_processed)
  have n: "filename report_docx = Some ''report.docx''" "''report.docx'' \<noteq> []"
    by (simp_all add: report_docx_def)
  have c: "\<not> endswith (lower ''report.docx'') ''.pdf''"
    "\<not> list_ex (endswith (lower ''report.docx''))
         [''.jpg'', ''.jpeg'', ''.png'', ''.bmp'', ''.webp'', ''.gif'']"
    by code_simp+
  have k: "classify report_docx = None" by code_simp
  then have m: "\<exists>f \<in> set [deed_jpg, report_docx]. classify f = None" by simp
  note t1 = invalid_item_aborts_request [where env = ?env and st = "[]" and pre = "[deed_jpg]"
      and acc = "[File_id ''deed.jpg'' ''file-0'']" and ?st1.0 = ?st1 and f = report_docx
      and name = "''report.docx''" and loads = json_loads and post = "[deed_jpg]"
      and files = "[deed_jpg, report_docx]"]
  note t2 = invalid_item_aborts_request [where env = ?env and st = "[]" and pre = "[deed_jpg]"
      and acc = "[File_id ''deed.jpg'' ''file-0'']" and ?st1.0 = ?st1 and f = ?nameless
      and name = "''report.docx''" and loads = json_loads and post = "[deed_jpg]"
      and files = "[deed_jpg, report_docx]"]
  from t1 p n c have a: "analyze_house ?env json_loads [] ([deed_jpg] @ report_docx # [deed_jpg]) =
        (Some (Inl (HTTPException 400 (Unsupported_format ''report.docx''))), ?st1)"
    by blast
  have "filename ?nameless = None \<or> filename ?nameless = Some []" by simp
  with t2 p have b: "analyze_house ?env json_loads [] ([deed_jpg] @ ?nameless # [deed_jpg]) =
        (Some (Inl (HTTPException 400 Missing_filename)), ?st1)"
    by blast
  from t1 m have d: "\<exists>d st'. analyze_house ?env json_loads [] [deed_jpg, report_docx] =
          (Some (Inl (HTTPException 400 d)), st')"
    by blast
  from p k a b d show ?thesis by blast
qed

text \<open>
  C7 as stated fails in its last part: when the second item is refused, the first has
  already been registered with the inference service.
\<close>

theorem earlier_items_are_registered:
  "analyze_house (mock_env Hangs) json_loads [] [deed_jpg, report_docx] =
     (Some (Inl (HTTPException 400 (Unsupported_format ''report.docx''))),
      [(''deed.jpg'', ''JFIF'', ''file-0'')])
   \<and> [(''deed.jpg'', ''JFIF'', ''file-0'')] \<noteq> ([] :: store)"
  by code_simp

subsection \<open>Order of the assets\<close>

lemma append_pdf_ids_eq: "append_pdf_ids ids ic = ic @ map Input_image ids"
  by (induction ids arbitrary: ic) auto

lemma append_file_contents_eq:
  "append_file_contents fcs ic = ic @ map Input_image (concat (map file_ids_of fcs))"
  by (induction fcs ic rule: append_file_contents.induct) (auto simp: append_pdf_ids_eq)

lemma build_input_content_eq:
  "build_input_content fcs = Input_text # map Input_image (concat (map file_ids_of fcs))"
  by (simp add: build_input_content_def append_file_contents_eq)

lemma upload_pages_order:
  "upload_pages env st name images i ids = (Inr ids', st') \<Longrightarrow>
     \<exists>new. st' = st @ new
       \<and> map asset_of new =
           map (\<lambda>(j, img). (page_name name j, image_save env img ''PNG'')) (enumerate i images)
       \<and> ids' = ids @ map handle_of new"
proof (induction images arbitrary: st i ids)
  case Nil
  then show ?case by simp
next
  case (Cons img images)
  from Cons.prems obtain h where
    h: "files_create env st (page_name name i, image_save env img ''PNG'') = Some h"
    and r: "upload_pages env (st @ [(page_name name i, image_save env img ''PNG'', h)]) name images
              (Suc i) (ids @ [h]) = (Inr ids', st')"
    by (auto simp: Let_def split: option.splits)
  from Cons.IH [OF r] obtain new where
    n: "st' = (st @ [(page_name name i, image_save env img ''PNG'', h)]) @ new"
       "map asset_of new =
           map (\<lambda>(j, img). (page_name name j, image_save env img ''PNG'')) (enumerate (Suc i) images)"
       "ids' = (ids @ [h]) @ map handle_of new"
    by blast
  let ?new = "(page_name name i, image_save env img ''PNG'', h) # new"
  have "st' = st @ ?new" using n(1) by simp
  moreover have "map asset_of ?new =
      map (\<lambda>(j, img). (page_name name j, image_save env img ''PNG'')) (enumerate i (img # images))"
    using n(2) by (simp add: asset_of_def)
  moreover have "ids' = ids @ map handle_of ?new" using n(3) by (simp add: handle_of_def)
  ultimately show ?case by blast
qed

lemma process_files_order:
  "process_files env st files acc = (Inr fcs, st') \<Longrightarrow>
     \<exists>new. st' = st @ new
       \<and> map asset_of new = concat (map (visual_assets env) files)
       \<and> concat (map file_ids_of fcs) = concat (map file_ids_of acc) @ map handle_of new"
proof (induction files arbitrary: st acc)
  case Nil
  then show ?case by simp
next
  case (Cons f files)
  from Cons.prems obtain name where nm: "filename f = Some name" "name \<noteq> []"
    by (auto split: option.splits if_splits)
  then have fs: "filename_str f = name" by (simp add: filename_str_def)
  show ?case
  proof (cases "is_pdf_file name")
    case True
    from Cons.prems nm True obtain ids st1 where
      c: "convert_pdf_to_file_ids env st f = (Inr ids, st1)"
      and r: "process_files env st1 files (acc @ [Pdf_file_ids name ids]) = (Inr fcs, st')"
      by (auto split: prod.splits sum.splits)
    from c obtain images where
      im: "convert_from_bytes env (content f) 200 ''PNG'' = Some images"
      and up: "upload_pages env st name images 0 [] = (Inr ids, st1)"
      by (auto simp: convert_pdf_to_file_ids_def fs split: option.splits)
    from upload_pages_order [OF up] obtain new1 where
      n1: "st1 = st @ new1"
        "map asset_of new1 =
           map (\<lambda>(j, img). (page_name name j, image_save env img ''PNG'')) (enumerate 0 images)"
        "ids = map handle_of new1"
      by auto
    from Cons.IH [OF r] obtain new2 where
      n2: "st' = st1 @ new2" "map asset_of new2 = concat (map (visual_assets env) files)"
        "concat (map file_ids_of fcs) =
           concat (map file_ids_of (acc @ [Pdf_file_ids name ids])) @ map handle_of new2"
      by blast
    have va: "visual_assets env f = map asset_of new1"
      using True im n1(2) by (simp add: visual_assets_def fs)
    have "st' = st @ (new1 @ new2)" using n1(1) n2(1) by simp
    moreover have "map asset_of (new1 @ new2) = concat (map (visual_assets env) (f # files))"
      using va n2(2) by simp
    moreover have "concat (map file_ids_of fcs) =
        concat (map file_ids_of acc) @ map handle_of (new1 @ new2)"
      using n2(3) n1(3) by simp
    ultimately show ?thesis by blast
  next
    case False
    with Cons.prems nm have img: "is_image_file name"
      by (auto split: if_splits)
    from Cons.prems nm False img obtain h st1 where
      u: "upload_file_to_openai env st f = (Inr h, st1)"
      and r: "process_files env st1 files (acc @ [File_id name h]) = (Inr fcs, st')"
      by (auto split: prod.splits sum.splits)
    from u nm have s1: "st1 = st @ [(name, content f, h)]"
      by (auto simp: upload_file_to_openai_def split: if_splits option.splits)
    from Cons.IH [OF r] obtain new2 where
      n2: "st' = st1 @ new2" "map asset_of new2 = concat (map (visual_assets env) files)"
        "concat (map file_ids_of fcs) =
           concat (map file_ids_of (acc @ [File_id name h])) @ map handle_of new2"
      by blast
    let ?new = "(name, content f, h) # new2"
    have va: "visual_assets env f = [(name, content f)]"
      using False by (simp add: visual_assets_def fs)
    have "st' = st @ ?new" using s1 n2(1) by simp
    moreover have "map asset_of ?new = concat (map (visual_assets env) (f # files))"
      using va n2(2) by (simp add: asset_of_def)
    moreover have "concat (map file_ids_of fcs) = concat (map file_ids_of acc) @ map handle_of ?new"
      using n2(3) by (simp add: handle_of_def)
    ultimately show ?thesis by blast
  qed
qed

text \<open>
  C6. When the documents of a request are all processed, the assets registered for it,
  in the order of registration, are the concatenation in upload order of each
  document's visual assets (a PDF's pages in page order), and the inference request is
  the instruction block followed by the handles of exactly these assets in the same
  order.
\<close>

theorem asset_order_preserved:
  assumes "process_files env st files [] = (Inr fcs, st')"
  shows "\<exists>new. st' = st @ new
     \<and> map asset_of new = concat (map (visual_assets env) files)
     \<and> build_input_content fcs = Input_text # map Input_image (map handle_of new)"
proof -
  from process_files_order [OF assms] obtain new where
    "st' = st @ new" "map asset_of new = concat (map (visual_assets env) files)"
    "concat (map file_ids_of fcs) = map handle_of new"
    by auto
  then show ?thesis by (auto simp: build_input_content_eq)
qed

lemma two_documents_processed:
  "process_files (mock_env call) [] [deed_jpg, registry_pdf] [] =
     (Inr [File_id ''deed.jpg'' ''file-0'', Pdf_file_ids ''registry.pdf'' [''file-1'', ''file-2'']],
      [(''deed.jpg'', ''JFIF'', ''file-0''),
       (''registry.pdf_page_1.png'', ''PNG:a'', ''file-1''),
       (''registry.pdf_page_2.png'', ''PNG:b'', ''file-2'')])"
  by code_simp

text \<open>
  The theorem at an image followed by a PDF of two pages.
\<close>

theorem asset_order_preserved_witness:
  "process_files (mock_env Hangs) [] [deed_jpg, registry_pdf] [] =
     (Inr [File_id ''deed.jpg'' ''file-0'', Pdf_file_ids ''registry.pdf'' [''file-1'', ''file-2'']],
      [(''deed.jpg'', ''JFIF'', ''file-0''),
       (''registry.pdf_page_1.png'', ''PNG:a'', ''file-1''),
       (''registry.pdf_page_2.png'', ''PNG:b'', ''file-2'')])
   \<and> concat (map (visual_assets (mock_env Hangs)) [deed_jpg, registry_pdf]) =
       [(''deed.jpg'', ''JFIF''), (''registry.pdf_page_1.png'', ''PNG:a''),
        (''registry.pdf_page_2.png'', ''PNG:b'')]
   \<and> build_input_content
        [File_id ''deed.jpg'' ''file-0'', Pdf_file_ids ''registry.pdf'' [''file-1'', ''file-2'']] =
       [Input_text, Input_image ''file-0'', Input_image ''file-1'', Input_image ''file-2'']"
proof -
  let ?st' = "[(''deed.jpg'', ''JFIF'', ''file-0''),
       (''registry.pdf_page_1.png'', ''PNG:a'', ''file-1''),
       (''registry.pdf_page_2.png'', ''PNG:b'', ''file-2'')]"
  have p: "process_files (mock_env Hangs) [] [deed_jpg, registry_pdf] [] =
     (Inr [File_id ''deed.jpg'' ''file-0'', Pdf_file_ids ''registry.pdf'' [''file-1'', ''file-2'']],
      ?st')"
    by (rule two_documents_processed)
  from asset_order_preserved [OF p] obtain new where
    n: "?st' = [] @ new"
      "map asset_of new = concat (map (visual_assets (mock_env Hangs)) [deed_jpg, registry_pdf])"
      "build_input_content
        [File_id ''deed.jpg'' ''file-0'', Pdf_file_ids ''registry.pdf'' [''file-1'', ''file-2'']] =
       Input_text # map Input_image (map handle_of new)"
    by blast
  from n(1) have e: "new = ?st'" by simp
  have a: "concat (map (visual_assets (mock_env Hangs)) [deed_jpg, registry_pdf]) =
       [(''deed.jpg'', ''JFIF''), (''registry.pdf_page_1.png'', ''PNG:a''),
        (''registry.pdf_page_2.png'', ''PNG:b'')]"
    using n(2) [symmetric] unfolding e by (simp add: asset_of_def)
  have b: "build_input_content
        [File_id ''deed.jpg'' ''file-0'', Pdf_file_ids ''registry.pdf'' [''file-1'', ''file-2'']] =
       [Input_text, Input_image ''file-0'', Input_image ''file-1'', Input_image ''file-2'']"
    using n(3) unfolding e by (simp add: handle_of_def)
  from p a b show ?thesis by blast
qed

subsection \<open>The rasterizer\<close>

lemma upload_pages_succeeds:
  "(\<forall>st j. j < length images \<longrightarrow>
       files_create env st (page_name name (i + j), image_save env (images ! j) ''PNG'') \<noteq> None)
   \<Longrightarrow> \<exists>ids' st'. upload_pages env st name images i ids = (Inr ids', st')"
proof (induction images arbitrary: st i ids)
  case Nil
  then show ?case by simp
next
  case (Cons img images)
  from Cons.prems [rule_format, of 0 st] obtain h where
    h: "files_create env st (page_name name i, image_save env img ''PNG'') = Some h"
    by auto
  have "\<forall>st j. j < length images \<longrightarrow>
       files_create env st (page_name name (Suc i + j), image_save env (images ! j) ''PNG'') \<noteq> None"
  proof (intro allI impI)
    fix st j assume "j < length images"
    with Cons.prems [rule_format, of "Suc j" st]
    show "files_create env st (page_name name (Suc i + j), image_save env (images ! j) ''PNG'') \<noteq> None"
      by simp
  qed
  from Cons.IH [OF this] show ?case using h by (simp add: Let_def)
qed

lemma map_enumerate_nth:
  "map (\<lambda>(j, x). g j x) (enumerate 0 xs) = map (\<lambda>j. g j (xs ! j)) [0..<length xs]"
  by (rule nth_equalityI) (auto simp: nth_enumerate_eq)

text \<open>
  C8. The PDF is rendered by one call of the rasterizer with \<open>dpi = 200\<close> and
  \<open>fmt = PNG\<close>. When that call yields \<open>N\<close> page images and the store accepts each
  page, \<open>convert_pdf_to_file_ids\<close> yields exactly \<open>N\<close> entries, and the assets it
  registers are the pages in page order: page \<open>j\<close> (counted from 0) saved as PNG under
  the name of the file followed by \<open>_page_\<close>, the number \<open>j + 1\<close> and \<open>.png\<close>. When the
  call raises, no page is skipped: the function fails with status 400, and the endpoint
  answers with a status 400 error that carries the filename.
\<close>

theorem rasterizer_pages:
  "(convert_from_bytes env (content f) 200 ''PNG'' = Some images \<longrightarrow>
      (\<forall>st j. j < length images \<longrightarrow>
         files_create env st
           (filename_str f @ ''_page_'' @ str_nat (j + 1) @ ''.png'',
            image_save env (images ! j) ''PNG'') \<noteq> None) \<longrightarrow>
      (\<exists>ids new. convert_pdf_to_file_ids env st f = (Inr ids, st @ new)
         \<and> length ids = length images
         \<and> map asset_of new =
             map (\<lambda>j. (filename_str f @ ''_page_'' @ str_nat (j + 1) @ ''.png'',
                       image_save env (images ! j) ''PNG'')) [0..<length images]
         \<and> map handle_of new = ids))
   \<and> (convert_from_bytes env (content f) 200 ''PNG'' = None \<longrightarrow>
        convert_pdf_to_file_ids env st f = (Inl (HTTPException 400 Pdf_conversion_failed), st))
   \<and> (convert_from_bytes env (content f) 200 ''PNG'' = None \<longrightarrow>
        filename f = Some name \<longrightarrow> name \<noteq> [] \<longrightarrow> is_pdf_file name \<longrightarrow>
        analyze_house env loads st (f # post) =
          (Some (Inl (HTTPException 400 (Pdf_processing_failed name))), st))"
proof (intro conjI impI)
  assume im: "convert_from_bytes env (content f) 200 ''PNG'' = Some images"
    and ok: "\<forall>st j. j < length images \<longrightarrow>
         files_create env st
           (filename_str f @ ''_page_'' @ str_nat (j + 1) @ ''.png'',
            image_save env (images ! j) ''PNG'') \<noteq> None"
  let ?name = "filename_str f"
  from ok have "\<forall>st j. j < length images \<longrightarrow>
       files_create env st (page_name ?name (0 + j), image_save env (images ! j) ''PNG'') \<noteq> None"
    by (simp add: page_name_def)
  from upload_pages_succeeds [OF this] obtain ids st' where
    up: "upload_pages env st ?name images 0 [] = (Inr ids, st')" by blast
  from upload_pages_order [OF up] obtain new where
    n: "st' = st @ new"
      "map asset_of new =
         map (\<lambda>(j, img). (page_name ?name j, image_save env img ''PNG'')) (enumerate 0 images)"
      "ids = map handle_of new"
    by auto
  have c: "convert_pdf_to_file_ids env st f = (Inr ids, st @ new)"
    using im up n(1) by (simp add: convert_pdf_to_file_ids_def)
  have a: "map asset_of new =
      map (\<lambda>j. (?name @ ''_page_'' @ str_nat (j + 1) @ ''.png'',
                image_save env (images ! j) ''PNG'')) [0..<length images]"
    using n(2) map_enumerate_nth [of "\<lambda>j img. (page_name ?name j, image_save env img ''PNG'')" images]
    by (simp add: page_name_def)
  have "length new = length images"
    using arg_cong [OF a, of length] by simp
  then have l: "length ids = length images" using n(3) by simp
  from c l a n(3)
  show "\<exists>ids new. convert_pdf_to_file_ids env st f = (Inr ids, st @ new)
         \<and> length ids = length images
         \<and> map asset_of new =
             map (\<lambda>j. (filename_str f @ ''_page_'' @ str_nat (j + 1) @ ''.png'',
                       image_save env (images ! j) ''PNG'')) [0..<length images]
         \<and> map handle_of new = ids"
    by blast
next
  assume "convert_from_bytes env (content f) 200 ''PNG'' = None"
  then show "convert_pdf_to_file_ids env st f = (Inl (HTTPException 400 Pdf_conversion_failed), st)"
    by (simp add: convert_pdf_to_file_ids_def)
next
  assume a: "convert_from_bytes env (content f) 200 ''PNG'' = None" "filename f = Some name"
    "name \<noteq> []" "is_pdf_file name"
  then have "process_files env st (f # post) [] =
      (Inl (HTTPException 400 (Pdf_processing_failed name)), st)"
    by (simp add: convert_pdf_to_file_ids_def)
  then show "analyze_house env loads st (f # post) =
          (Some (Inl (HTTPException 400 (Pdf_processing_failed name))), st)"
    by (rule analyze_house_rejected)
qed

lemma page_names:
  "filename_str registry_pdf @ ''_page_'' @ str_nat (0 + 1) @ ''.png'' = ''registry.pdf_page_1.png''"
  "filename_str registry_pdf @ ''_page_'' @ str_nat (1 + 1) @ ''.png'' = ''registry.pdf_page_2.png''"
  by code_simp+

text \<open>
  The theorem at a PDF of two pages and at a corrupt PDF.
\<close>

theorem rasterizer_pages_witness:
  "convert_from_bytes (mock_env Hangs) (content registry_pdf) 200 ''PNG'' = Some [''a'', ''b'']
   \<and> (\<exists>ids new. convert_pdf_to_file_ids (mock_env Hangs) [] registry_pdf = (Inr ids, new)
         \<and> length ids = 2
         \<and> map asset_of new =
             [(''registry.pdf_page_1.png'', ''PNG:a''), (''registry.pdf_page_2.png'', ''PNG:b'')])
   \<and> convert_from_bytes (mock_env Hangs) (content corrupt_pdf) 200 ''PNG'' = None
   \<and> convert_pdf_to_file_ids (mock_env Hangs) [] corrupt_pdf =
        (Inl (HTTPException 400 Pdf_conversion_failed), [])
   \<and> analyze_house (mock_env Hangs) json_loads [] (corrupt_pdf # [deed_jpg]) =
        (Some (Inl (HTTPException 400 (Pdf_processing_failed ''bad.pdf''))), [])"
proof -
  let ?env = "mock_env Hangs"
  have im: "convert_from_bytes ?env (content registry_pdf) 200 ''PNG'' = Some [''a'', ''b'']"
    by (simp add: mock_env_def registry_pdf_def)
  have ok: "\<forall>st j. j < length [''a'', ''b''] \<longrightarrow>
         files_create ?env st
           (filename_str registry_pdf @ ''_page_'' @ str_nat (j + 1) @ ''.png'',
            image_save ?env ([''a'', ''b''] ! j) ''PNG'') \<noteq> None"
    by (simp add: mock_env_def)
  have co: "convert_from_bytes ?env (content corrupt_pdf) 200 ''PNG'' = None"
    by (simp add: mock_env_def corrupt_pdf_def)
  have nm: "filename corrupt_pdf = Some ''bad.pdf''" "''bad.pdf'' \<noteq> []"
    by (simp_all add: corrupt_pdf_def)
  have pdf: "is_pdf_file ''bad.pdf''" by code_simp
  note t1 = rasterizer_pages [where env = ?env and f = registry_pdf and images = "[''a'', ''b'']"
      and st = "[]" and name = "''bad.pdf''" and loads = json_loads and post = "[deed_jpg]"]
  note t2 = rasterizer_pages [where env = ?env and f = corrupt_pdf and images = "[''a'', ''b'']"
      and st = "[]" and name = "''bad.pdf''" and loads = json_loads and post = "[deed_jpg]"]
  from t1 im ok obtain ids new where
    c: "convert_pdf_to_file_ids ?env [] registry_pdf = (Inr ids, [] @ new)"
      "length ids = length [''a'', ''b'']"
      "map asset_of new =
             map (\<lambda>j. (filename_str registry_pdf @ ''_page_'' @ str_nat (j + 1) @ ''.png'',
                       image_save ?env ([''a'', ''b''] ! j) ''PNG'')) [0..<length [''a'', ''b'']]"
    by blast
  have u: "[0..<length [''a'', ''b'']] = [0, 1]" by (simp add: upt_rec)
  have a: "map asset_of new =
             [(''registry.pdf_page_1.png'', ''PNG:a''), (''registry.pdf_page_2.png'', ''PNG:b'')]"
    using c(3) page_names unfolding u by (simp add: mock_env_def)
  from t2 co have d: "convert_pdf_to_file_ids ?env [] corrupt_pdf =
        (Inl (HTTPException 400 Pdf_conversion_failed), [])"
    by blast
  from t2 co nm pdf have e: "analyze_house ?env json_loads [] (corrupt_pdf # [deed_jpg]) =
        (Some (Inl (HTTPException 400 (Pdf_processing_failed ''bad.pdf''))), [])"
    by blast
  from c(1,2) a have "\<exists>ids new. convert_pdf_to_file_ids ?env [] registry_pdf = (Inr ids, new)
         \<and> length ids = 2
         \<and> map asset_of new =
             [(''registry.pdf_page_1.png'', ''PNG:a''), (''registry.pdf_page_2.png'', ''PNG:b'')]"
    by auto
  with im co d e show ?thesis by blast
qed

section \<open>Properties of the extractor\<close>

subsection \<open>What a match of the patterns looks like\<close>







subsection \<open>Texts that the inline pattern matches\<close>






subsection \<open>Texts cut at their braces\<close>








subsection \<open>The inline pattern and nested objects\<close>








subsection \<open>The order of the strategies\<close>

text \<open>
  C2 (as amended). For every text the extractor takes its candidate from the first of
  the three strategies whose pattern matches: the fenced block, else the inline object
  with the key, else the whole trimmed text. Only this candidate is decoded, and the
  result is the validated decoding of it, or a failure when it is not decoded: no later
  strategy is tried. Whenever the candidate is decoded, it is the result of the first
  strategy that yields a syntactically valid object.
\<close>

theorem first_matching_strategy_is_used:
  "(strategy1 raw = Some c \<longrightarrow> extract_json_str raw = c)
   \<and> (strategy1 raw = None \<longrightarrow> strategy2 raw = Some c \<longrightarrow> extract_json_str raw = c)
   \<and> (strategy1 raw = None \<longrightarrow> strategy2 raw = None \<longrightarrow> extract_json_str raw = strip raw)
   \<and> parse_openai_response loads raw = Option.bind (loads (extract_json_str raw)) validate_result
   \<and> (loads (extract_json_str raw) \<noteq> None \<longrightarrow>
        loads (extract_json_str raw) = first_valid loads raw)"
proof -
  have a: "strategy1 raw = Some c \<longrightarrow> extract_json_str raw = c"
    by (auto simp: strategy1_def extract_json_str_def)
  have b: "strategy1 raw = None \<longrightarrow> strategy2 raw = Some c \<longrightarrow> extract_json_str raw = c"
    by (auto simp: strategy1_def strategy2_def extract_json_str_def)
  have d: "strategy1 raw = None \<longrightarrow> strategy2 raw = None \<longrightarrow> extract_json_str raw = strip raw"
    by (auto simp: strategy1_def strategy2_def extract_json_str_def)
  have e: "parse_openai_response loads raw = Option.bind (loads (extract_json_str raw)) validate_result"
    by (simp add: parse_openai_response_def split: option.splits)
  have g: "loads (extract_json_str raw) \<noteq> None \<longrightarrow>
        loads (extract_json_str raw) = first_valid loads raw"
    by (auto simp: first_valid_def strategy1_def strategy2_def strategy3_def extract_json_str_def
        split: option.splits)
  from a b d e g show ?thesis by blast
qed

lemma flat_answer_strategies:
  "strategy1 (six_fields_text ''true'') = None"
  "strategy2 (six_fields_text ''true'') = Some (six_fields_text ''true'')"
  "json_loads (six_fields_text ''true'') = Some (JObject answer_all_true_first)"
  by code_simp+

text \<open>
  The theorem at a flat answer: the second strategy is the first that matches.
\<close>

theorem first_matching_strategy_is_used_witness:
  "strategy1 (six_fields_text ''true'') = None
   \<and> strategy2 (six_fields_text ''true'') = Some (six_fields_text ''true'')
   \<and> extract_json_str (six_fields_text ''true'') = six_fields_text ''true''
   \<and> json_loads (six_fields_text ''true'') = Some (JObject answer_all_true_first)
   \<and> first_valid json_loads (six_fields_text ''true'') = Some (JObject answer_all_true_first)"
proof -
  note t = first_matching_strategy_is_used [where raw = "six_fields_text ''true''"
      and c = "six_fields_text ''true''" and loads = json_loads]
  from t flat_answer_strategies(1,2) have e:
    "extract_json_str (six_fields_text ''true'') = six_fields_text ''true''"
    by blast
  with flat_answer_strategies(3) have "json_loads (extract_json_str (six_fields_text ''true'')) \<noteq> None"
    by simp
  with t have "json_loads (extract_json_str (six_fields_text ''true'')) =
      first_valid json_loads (six_fields_text ''true'')"
    by blast
  with e flat_answer_strategies(3) have
    "first_valid json_loads (six_fields_text ''true'') = Some (JObject answer_all_true_first)"
    by simp
  with flat_answer_strategies e show ?thesis by blast
qed

text \<open>
  C2 as stated fails: a fenced block that is not JSON, followed by a complete inline
  object. The first strategy that yields a valid object is the second, but the fenced
  candidate is the one decoded, and extraction fails.
\<close>

theorem invalid_fence_blocks_later_strategies:
  "strategy1 fenced_garbage_text = Some (lbrace # ''oops'' @ [rbrace])
   \<and> json_loads (lbrace # ''oops'' @ [rbrace]) = None
   \<and> strategy2 fenced_garbage_text = Some (six_fields_text ''true'')
   \<and> json_loads (six_fields_text ''true'') = Some (JObject answer_all_true_first)
   \<and> first_valid json_loads fenced_garbage_text = Some (JObject answer_all_true_first)
   \<and> extract_json_str fenced_garbage_text = lbrace # ''oops'' @ [rbrace]
   \<and> parse_openai_response json_loads fenced_garbage_text = None"
  by code_simp

end
